theory Spec2Isabelle
  imports Complex_Main "HOL-Library.Word"
begin

section \<open>AIImageAnalysis: the two-stage analysis wizard\<close>

text \<open>
  The component keeps six state variables (\<open>useState\<close>) and receives three props. Its
  handlers are \<open>async\<close> functions: each one runs synchronously up to its next \<open>await\<close>,
  and is resumed when the awaited promise settles. A handler reads the state variables
  of the render that created it (its closure) and writes through the setters, whose
  writes take effect for the next render. The model therefore lets every handler segment
  take the closure's state and return the list of effects it performs, in program order,
  together with the continuation it is suspended on, if any.
\<close>

datatype stage = Idle | Analyzing | Questions | Generating | Report

datatype error = NetworkError | TypeError

datatype 'a outcome = Rejected | Resolved 'a

type_synonym blob = string

text \<open>Body of the stage-1 response, \<open>res.data\<close>: the two arrays, the summary text, and the
  questions array, which the code itself allows to be absent.\<close>

record 'n stage1_data =
  top3_classes :: "string list"
  top3_probs :: "'n list"
  rag_summary :: string
  questions :: "string list option"

text \<open>Body of the stage-2 response; \<open>final_report\<close> may be absent.\<close>

record stage2_data =
  final_report :: "string option"

record props =
  conditionType :: string
  imageUrl :: string
  patientRef :: string

text \<open>An entry of the \<open>answers\<close> array is a string, or \<open>None\<close> for \<open>undefined\<close> (a hole
  left by an assignment beyond the end of the array).\<close>

record 'n ui_state =
  stage :: stage
  loading :: bool
  stage1Result :: "'n stage1_data option"
  answers :: "string option list"
  currentQ :: nat
  finalReport :: "string option"

text \<open>The JSON body of the stage-2 request. The prefix \<open>s2_\<close> only keeps the field names
  apart from those of the other records; on the wire the keys are \<open>top3_classes\<close>,
  \<open>top3_probs\<close>, \<open>rag_summary\<close>, \<open>questions\<close>, \<open>answers\<close>, \<open>patient_ref\<close>, \<open>image_url\<close>.\<close>

record 'n stage2_payload =
  s2_top3_classes :: "string list"
  s2_top3_probs :: "'n list"
  s2_rag_summary :: string
  s2_questions :: "string list option"
  s2_answers :: "string option list"
  s2_patient_ref :: string
  s2_image_url :: string

text \<open>\<open>ToFixed2 p\<close> stands for the string \<open>(p * 100).toFixed(2)\<close>; \<open>NaN_text\<close> for the same
  expression on \<open>undefined\<close>, which is the string \<open>NaN\<close>.\<close>

datatype 'n confidence = ToFixed2 'n | NaN_text

record 'n prediction =
  name :: string
  confidence :: "'n confidence"

record 'n ai_result =
  topPredictions :: "'n prediction list"
  aiFinalReport :: "string option"
  ragSummary :: string
  patientAnswers :: "string option list"

text \<open>The body \<open>{ patient_ref: patientRef, [dataKey]: aiResult }\<close> of the save request.\<close>

record 'n save_body =
  sv_patient_ref :: string
  sv_data_key :: string
  sv_data_value :: "'n ai_result"

datatype 'n request =
    FetchImage string
  | PostStage1 string blob
  | PostStage2 string "'n stage2_payload"
  | PostSave string "'n save_body"

text \<open>What a handler does, in program order. \<open>Caught e\<close> marks the entry into a
  \<open>catch\<close> block with the exception \<open>e\<close>; \<open>Uncaught e\<close> an exception that leaves an event
  handler. Neither changes the state.\<close>

datatype 'n effect =
    SetStage stage
  | SetLoading bool
  | SetStage1Result "'n stage1_data"
  | SetAnswers "string option list"
  | SetCurrentQ nat
  | SetFinalReport string
  | Alert string
  | Send "'n request"
  | ReadBlob
  | Caught error
  | Uncaught error

text \<open>A suspended \<open>async\<close> function: the \<open>await\<close> it waits on and the state of its closure.\<close>

datatype 'n task =
    AwaitFetch "'n ui_state"
  | AwaitBlob "'n ui_state"
  | AwaitStage1 "'n ui_state"
  | AwaitStage2 "'n ui_state"
  | AwaitSave "'n ui_state"

datatype 'n response =
    RFetch
  | RBlob blob
  | RStage1 "'n stage1_data"
  | RStage2 stage2_data
  | RSave

type_synonym 'n segment = "'n effect list \<times> 'n task option"

subsection \<open>try / catch / finally\<close>

text \<open>
  Both handlers have the shape
  \<^verbatim>\<open>try { ... } catch (err) { alert(msg); setStage("idle"); } finally { setLoading(false); }\<close>.
  The body of the \<open>try\<close> yields the effects it performed and then either the exception
  it raised, or the task it is suspended on, or \<open>None\<close> when it ran to its end.
  The \<open>finally\<close> block runs when the function leaves the \<open>try\<close>, not when it suspends.
\<close>

fun catch_finally :: "string \<Rightarrow> 'n effect list \<times> (error + 'n task option) \<Rightarrow> 'n segment" where
  "catch_finally msg (effs, Inl e) =
     (effs @ [Caught e, Alert msg, SetStage Idle, SetLoading False], None)"
| "catch_finally msg (effs, Inr (Some t)) = (effs, Some t)"
| "catch_finally msg (effs, Inr None) = (effs @ [SetLoading False], None)"

definition analyze_error :: string where
  "analyze_error = ''Error analyzing image. Check AI backend logs.''"

definition submit_error :: string where
  "submit_error = ''Error generating or saving report.''"

definition answer_prompt :: string where
  "answer_prompt = ''Please answer this question.''"

definition no_report :: string where
  "no_report = ''No detailed AI report available.''"

subsection \<open>handleSubmitAnswers\<close>

definition stage_url :: "props \<Rightarrow> string \<Rightarrow> string" where
  "stage_url pr suffix = ''http://localhost:5001/api/'' @ conditionType pr @ suffix"

definition payload :: "props \<Rightarrow> 'n ui_state \<Rightarrow> 'n stage1_data \<Rightarrow> 'n stage2_payload" where
  "payload pr s d =
     \<lparr> s2_top3_classes = top3_classes d,
       s2_top3_probs = top3_probs d,
       s2_rag_summary = rag_summary d,
       s2_questions = questions d,
       s2_answers = answers s,
       s2_patient_ref = patientRef pr,
       s2_image_url = imageUrl pr \<rparr>"

text \<open>The function takes no parameters: \<open>stage1Result\<close> and \<open>answers\<close> are those of its
  closure. Reading \<open>stage1Result.top3_classes\<close> on \<open>null\<close> raises a TypeError.\<close>

definition handleSubmitAnswers :: "props \<Rightarrow> 'n ui_state \<Rightarrow> 'n segment" where
  "handleSubmitAnswers pr s =
     catch_finally submit_error
       (case stage1Result s of
          None \<Rightarrow> ([SetLoading True, SetStage Generating], Inl TypeError)
        | Some d \<Rightarrow>
            ([SetLoading True, SetStage Generating,
              Send (PostStage2 (stage_url pr ''_stage2'') (payload pr s d))],
             Inr (Some (AwaitStage2 s))))"

definition saveUrl :: "props \<Rightarrow> string" where
  "saveUrl pr =
     (if conditionType pr = ''wound'' then ''/patients/ai/save-woundcare''
      else ''/patients/ai/save-skincare'')"

definition dataKey :: "props \<Rightarrow> string" where
  "dataKey pr = (if conditionType pr = ''wound'' then ''wound_result'' else ''skin_result'')"

text \<open>\<open>top3_classes.map((cls, i) => ...)\<close>; \<open>top3_probs[i]\<close> beyond the end is \<open>undefined\<close>.\<close>

definition top_predictions :: "'n stage1_data \<Rightarrow> 'n prediction list" where
  "top_predictions d =
     map (\<lambda>(i, cls).
            \<lparr> name = cls,
              confidence = (if i < length (top3_probs d) then ToFixed2 (top3_probs d ! i)
                            else NaN_text) \<rparr>)
         (enumerate 0 (top3_classes d))"

definition aiResult :: "'n ui_state \<Rightarrow> 'n stage1_data \<Rightarrow> stage2_data \<Rightarrow> 'n ai_result" where
  "aiResult s d r =
     \<lparr> topPredictions = top_predictions d,
       aiFinalReport = final_report r,
       ragSummary = rag_summary d,
       patientAnswers = answers s \<rparr>"

text \<open>\<open>res.data.final_report || "No detailed AI report available."\<close>: an absent or empty
  report is falsy.\<close>

definition shown_report :: "stage2_data \<Rightarrow> string" where
  "shown_report r =
     (case final_report r of None \<Rightarrow> no_report
      | Some t \<Rightarrow> if t = [] then no_report else t)"

text \<open>After \<open>await axios.post(..._stage2, payload)\<close>.\<close>

fun submit_after_stage2 :: "props \<Rightarrow> 'n ui_state \<Rightarrow> stage2_data outcome \<Rightarrow> 'n segment" where
  "submit_after_stage2 pr s Rejected = catch_finally submit_error ([], Inl NetworkError)"
| "submit_after_stage2 pr s (Resolved r) =
     catch_finally submit_error
       (case stage1Result s of
          None \<Rightarrow> ([SetFinalReport (shown_report r), SetStage Report], Inl TypeError)
        | Some d \<Rightarrow>
            ([SetFinalReport (shown_report r), SetStage Report,
              Send (PostSave (saveUrl pr)
                      \<lparr> sv_patient_ref = patientRef pr,
                        sv_data_key = dataKey pr,
                        sv_data_value = aiResult s d r \<rparr>)],
             Inr (Some (AwaitSave s))))"

text \<open>After \<open>await http.post(saveUrl, ...)\<close>.\<close>

fun submit_after_save :: "'n ui_state \<Rightarrow> unit outcome \<Rightarrow> 'n segment" where
  "submit_after_save s Rejected = catch_finally submit_error ([], Inl NetworkError)"
| "submit_after_save s (Resolved u) = catch_finally submit_error ([], Inr None)"

subsection \<open>handleAnalyze\<close>

definition handleAnalyze :: "props \<Rightarrow> 'n ui_state \<Rightarrow> 'n segment" where
  "handleAnalyze pr s =
     (if loading s then ([], None)
      else catch_finally analyze_error
             ([SetLoading True, SetStage Analyzing, Send (FetchImage (imageUrl pr))],
              Inr (Some (AwaitFetch s))))"

text \<open>After \<open>await fetch(imageUrl)\<close>.\<close>

fun analyze_after_fetch :: "'n ui_state \<Rightarrow> unit outcome \<Rightarrow> 'n segment" where
  "analyze_after_fetch s Rejected = catch_finally analyze_error ([], Inl NetworkError)"
| "analyze_after_fetch s (Resolved u) =
     catch_finally analyze_error ([ReadBlob], Inr (Some (AwaitBlob s)))"

text \<open>After \<open>await imageResponse.blob()\<close>.\<close>

fun analyze_after_blob :: "props \<Rightarrow> 'n ui_state \<Rightarrow> blob outcome \<Rightarrow> 'n segment" where
  "analyze_after_blob pr s Rejected = catch_finally analyze_error ([], Inl NetworkError)"
| "analyze_after_blob pr s (Resolved b) =
     catch_finally analyze_error
       ([Send (PostStage1 (stage_url pr ''_stage1'') b)], Inr (Some (AwaitStage1 s)))"

text \<open>
  After \<open>await axios.post(..._stage1, formData)\<close>. When
  \<open>!res.data.questions || res.data.questions.length === 0\<close> the handler calls
  \<open>handleSubmitAnswers([], res.data)\<close>: the callee declares no parameters, so both
  arguments are dropped and it runs on the closure's state; the call is not awaited, so
  \<open>handleAnalyze\<close> goes on to its \<open>finally\<close> as soon as the callee suspends or returns.
\<close>

definition analyze_without_questions :: "props \<Rightarrow> 'n ui_state \<Rightarrow> 'n stage1_data \<Rightarrow> 'n segment" where
  "analyze_without_questions pr s d =
     (let (sub_effs, sub_task) = handleSubmitAnswers pr s
      in (fst (catch_finally analyze_error (SetStage1Result d # sub_effs, Inr None)),
          sub_task))"

definition analyze_with_questions :: "'n ui_state \<Rightarrow> 'n stage1_data \<Rightarrow> string list \<Rightarrow> 'n segment" where
  "analyze_with_questions s d qs =
     catch_finally analyze_error
       ([SetStage1Result d, SetAnswers (replicate (length qs) (Some [])), SetStage Questions],
        Inr None)"

fun analyze_after_stage1 :: "props \<Rightarrow> 'n ui_state \<Rightarrow> 'n stage1_data outcome \<Rightarrow> 'n segment" where
  "analyze_after_stage1 pr s Rejected = catch_finally analyze_error ([], Inl NetworkError)"
| "analyze_after_stage1 pr s (Resolved d) =
     (case questions d of
        None \<Rightarrow> analyze_without_questions pr s d
      | Some qs \<Rightarrow>
          if length qs = 0 then analyze_without_questions pr s d
          else analyze_with_questions s d qs)"

subsection \<open>The question form\<close>

text \<open>\<open>xs[i]\<close> and \<open>xs[i] = v\<close> on a JavaScript array: a read beyond the end is
  \<open>undefined\<close>, a write beyond the end extends the array and leaves holes.\<close>

definition js_get :: "'a option list \<Rightarrow> nat \<Rightarrow> 'a option" where
  "js_get xs i = (if i < length xs then xs ! i else None)"

definition js_set :: "'a option list \<Rightarrow> nat \<Rightarrow> 'a \<Rightarrow> 'a option list" where
  "js_set xs i v =
     (if i < length xs then xs[i := Some v]
      else xs @ replicate (i - length xs) None @ [Some v])"

text \<open>\<open>!x\<close> for \<open>x\<close> a string or \<open>undefined\<close>.\<close>

definition falsy :: "string option \<Rightarrow> bool" where
  "falsy x = (case x of None \<Rightarrow> True | Some t \<Rightarrow> t = [])"

definition handleAnswerChange :: "'n ui_state \<Rightarrow> string \<Rightarrow> 'n segment" where
  "handleAnswerChange s v = ([SetAnswers (js_set (answers s) (currentQ s) v)], None)"

text \<open>\<open>nextQuestion\<close> is not inside a \<open>try\<close>: \<open>stage1Result.questions.length\<close> on a missing
  result or a missing array leaves the handler as an uncaught TypeError.\<close>

definition nextQuestion :: "props \<Rightarrow> 'n ui_state \<Rightarrow> error + 'n segment" where
  "nextQuestion pr s =
     (if falsy (js_get (answers s) (currentQ s)) then Inr ([Alert answer_prompt], None)
      else case stage1Result s of
             None \<Rightarrow> Inl TypeError
           | Some d \<Rightarrow>
               (case questions d of
                  None \<Rightarrow> Inl TypeError
                | Some qs \<Rightarrow>
                    if int (currentQ s) < int (length qs) - 1
                    then Inr ([SetCurrentQ (currentQ s + 1)], None)
                    else Inr (handleSubmitAnswers pr s)))"

subsection \<open>The component as a transition system\<close>

fun apply_effect :: "'n ui_state \<Rightarrow> 'n effect \<Rightarrow> 'n ui_state" where
  "apply_effect s (SetStage x) = s\<lparr>stage := x\<rparr>"
| "apply_effect s (SetLoading b) = s\<lparr>loading := b\<rparr>"
| "apply_effect s (SetStage1Result d) = s\<lparr>stage1Result := Some d\<rparr>"
| "apply_effect s (SetAnswers xs) = s\<lparr>answers := xs\<rparr>"
| "apply_effect s (SetCurrentQ n) = s\<lparr>currentQ := n\<rparr>"
| "apply_effect s (SetFinalReport t) = s\<lparr>finalReport := Some t\<rparr>"
| "apply_effect s (Alert m) = s"
| "apply_effect s (Send r) = s"
| "apply_effect s ReadBlob = s"
| "apply_effect s (Caught e) = s"
| "apply_effect s (Uncaught e) = s"

definition apply_effects :: "'n ui_state \<Rightarrow> 'n effect list \<Rightarrow> 'n ui_state" where
  "apply_effects s effs = foldl apply_effect s effs"

text \<open>\<open>ui\<close> is the state of the current render, \<open>pending\<close> the suspended handlers (one per
  request in flight), \<open>trace\<close> everything done so far.\<close>

record 'n config =
  ui :: "'n ui_state"
  pending :: "'n task list"
  trace :: "'n effect list"

definition init :: "'n config" where
  "init =
     \<lparr> ui = \<lparr> stage = Idle, loading = False, stage1Result = None, answers = [],
              currentQ = 0, finalReport = None \<rparr>,
       pending = [],
       trace = [] \<rparr>"

datatype 'n event =
    ClickAnalyze
  | TypeAnswer string
  | ClickNext
  | Settle nat "'n response outcome"

text \<open>Resuming a suspended handler with the outcome of its promise; \<open>None\<close> when the
  response is not one this \<open>await\<close> can receive.\<close>

fun resume :: "props \<Rightarrow> 'n task \<Rightarrow> 'n response outcome \<Rightarrow> 'n segment option" where
  "resume pr (AwaitFetch s) Rejected = Some (analyze_after_fetch s Rejected)"
| "resume pr (AwaitFetch s) (Resolved RFetch) = Some (analyze_after_fetch s (Resolved ()))"
| "resume pr (AwaitBlob s) Rejected = Some (analyze_after_blob pr s Rejected)"
| "resume pr (AwaitBlob s) (Resolved (RBlob b)) = Some (analyze_after_blob pr s (Resolved b))"
| "resume pr (AwaitStage1 s) Rejected = Some (analyze_after_stage1 pr s Rejected)"
| "resume pr (AwaitStage1 s) (Resolved (RStage1 d)) =
     Some (analyze_after_stage1 pr s (Resolved d))"
| "resume pr (AwaitStage2 s) Rejected = Some (submit_after_stage2 pr s Rejected)"
| "resume pr (AwaitStage2 s) (Resolved (RStage2 r)) =
     Some (submit_after_stage2 pr s (Resolved r))"
| "resume pr (AwaitSave s) Rejected = Some (submit_after_save s Rejected)"
| "resume pr (AwaitSave s) (Resolved RSave) = Some (submit_after_save s (Resolved ()))"
| "resume pr t out = None"

text \<open>What one event does to the component: the effects of the handler segment it runs
  and the task that segment leaves suspended. \<open>None\<close> when the event cannot occur: the
  analyze button is rendered only in stage \<open>idle\<close> (a click is admitted there whether or
  not the button is disabled, so that the handler's own \<open>loading\<close> guard decides), the
  question form only in stage \<open>questions\<close> with a stage-1 result, and a promise settles
  only while it is pending.\<close>

definition shows_questions :: "'n ui_state \<Rightarrow> bool" where
  "shows_questions s = (stage s = Questions \<and> stage1Result s \<noteq> None)"

definition remove_nth :: "nat \<Rightarrow> 'a list \<Rightarrow> 'a list" where
  "remove_nth i xs = take i xs @ drop (Suc i) xs"

fun fire :: "props \<Rightarrow> 'n event \<Rightarrow> 'n config \<Rightarrow> ('n task list \<times> 'n segment) option" where
  "fire pr ClickAnalyze c =
     (if stage (ui c) = Idle then Some (pending c, handleAnalyze pr (ui c)) else None)"
| "fire pr (TypeAnswer v) c =
     (if shows_questions (ui c) then Some (pending c, handleAnswerChange (ui c) v) else None)"
| "fire pr ClickNext c =
     (if shows_questions (ui c) then
        (case nextQuestion pr (ui c) of
           Inl e \<Rightarrow> Some (pending c, ([Uncaught e], None))
         | Inr seg \<Rightarrow> Some (pending c, seg))
      else None)"
| "fire pr (Settle i out) c =
     (if i < length (pending c) then
        (case resume pr (pending c ! i) out of
           None \<Rightarrow> None
         | Some seg \<Rightarrow> Some (remove_nth i (pending c), seg))
      else None)"

definition effects_of :: "props \<Rightarrow> 'n event \<Rightarrow> 'n config \<Rightarrow> 'n effect list" where
  "effects_of pr e c = (case fire pr e c of None \<Rightarrow> [] | Some (ps, effs, k) \<Rightarrow> effs)"

definition step :: "props \<Rightarrow> 'n event \<Rightarrow> 'n config \<Rightarrow> 'n config option" where
  "step pr e c =
     (case fire pr e c of
        None \<Rightarrow> None
      | Some (ps, effs, k) \<Rightarrow>
          Some \<lparr> ui = apply_effects (ui c) effs,
                 pending = ps @ (case k of None \<Rightarrow> [] | Some t \<Rightarrow> [t]),
                 trace = trace c @ effs \<rparr>)"

fun run :: "props \<Rightarrow> 'n event list \<Rightarrow> 'n config \<Rightarrow> 'n config option" where
  "run pr [] c = Some c"
| "run pr (e # es) c = (case step pr e c of None \<Rightarrow> None | Some c' \<Rightarrow> run pr es c')"

inductive reachable :: "props \<Rightarrow> 'n config \<Rightarrow> bool" for pr :: props where
  reachable_init: "reachable pr init"
| reachable_step: "reachable pr c \<Longrightarrow> step pr e c = Some c' \<Longrightarrow> reachable pr c'"

subsection \<open>Properties of traces and the invariant of the reachable configurations\<close>

fun is_alert :: "'n effect \<Rightarrow> bool" where
  "is_alert (Alert m) = True"
| "is_alert other = False"

fun is_caught :: "'n effect \<Rightarrow> bool" where
  "is_caught (Caught e) = True"
| "is_caught other = False"

fun is_send :: "'n effect \<Rightarrow> bool" where
  "is_send (Send r) = True"
| "is_send other = False"

text \<open>The forward order of the stages: each stage to the next one, and \<open>analyzing\<close> to
  \<open>generating\<close> when the questions are skipped.\<close>

fun advance :: "stage \<Rightarrow> stage \<Rightarrow> bool" where
  "advance Idle Analyzing = True"
| "advance Analyzing Questions = True"
| "advance Analyzing Generating = True"
| "advance Questions Generating = True"
| "advance Generating Report = True"
| "advance a b = False"

text \<open>\<open>stage_walk cur err effs\<close> follows the writes to \<open>stage\<close> in \<open>effs\<close>, starting from
  the value \<open>cur\<close>: every write either advances, or writes \<open>idle\<close> after an exception was
  caught (\<open>err\<close>) and before any other write to \<open>stage\<close>.\<close>

fun stage_walk :: "stage \<Rightarrow> bool \<Rightarrow> 'n effect list \<Rightarrow> bool" where
  "stage_walk cur err [] = True"
| "stage_walk cur err (Caught e # effs) = stage_walk cur True effs"
| "stage_walk cur err (SetStage x # effs) =
     ((advance cur x \<or> (x = Idle \<and> err)) \<and> stage_walk x False effs)"
| "stage_walk cur err (other # effs) = stage_walk cur err effs"

text \<open>A suspended handler fits the current state \<open>u\<close>: the stage is the one its segment
  left, the closure of \<open>handleAnalyze\<close> still agrees with the state on the stage-1 result
  and the answers, and the closure of \<open>handleSubmitAnswers\<close> holds a stage-1 result.\<close>

fun task_ok :: "'n ui_state \<Rightarrow> 'n task \<Rightarrow> bool" where
  "task_ok u (AwaitFetch s) =
     (stage u = Analyzing \<and> stage1Result s = stage1Result u \<and> answers s = answers u)"
| "task_ok u (AwaitBlob s) =
     (stage u = Analyzing \<and> stage1Result s = stage1Result u \<and> answers s = answers u)"
| "task_ok u (AwaitStage1 s) =
     (stage u = Analyzing \<and> stage1Result s = stage1Result u \<and> answers s = answers u)"
| "task_ok u (AwaitStage2 s) = (stage u = Generating \<and> stage1Result s \<noteq> None)"
| "task_ok u (AwaitSave s) = (stage u = Report)"

definition wf :: "'n config \<Rightarrow> bool" where
  "wf c = (length (pending c) \<le> 1 \<and> list_all (task_ok (ui c)) (pending c))"

section \<open>JavaScript strings\<close>

text \<open>A JavaScript string is a sequence of 16-bit code units. \<open>js\<close> writes one from its
  ASCII text.\<close>

type_synonym jsstring = "16 word list"

definition js :: "string \<Rightarrow> jsstring" where
  "js s = map (\<lambda>c. of_nat (of_char c)) s"

text \<open>\<open>is_space\<close> is the class \<open>\s\<close> of a pattern without the \<open>u\<close> flag, which is also what
  \<open>trim\<close> removes: the white space code points (tab, vertical tab, form feed, space,
  no-break space, U+1680, U+2000 to U+200A, U+202F, U+205F, U+3000, U+FEFF) and the line
  terminators (line feed, carriage return, U+2028, U+2029). All are single code units.\<close>

definition is_space :: "16 word \<Rightarrow> bool" where
  "is_space c =
     (c \<in> set [0x0009, 0x000A, 0x000B, 0x000C, 0x000D, 0x0020, 0x00A0, 0x1680,
               0x2000, 0x2001, 0x2002, 0x2003, 0x2004, 0x2005, 0x2006, 0x2007,
               0x2008, 0x2009, 0x200A, 0x2028, 0x2029, 0x202F, 0x205F, 0x3000, 0xFEFF])"

text \<open>\<open>xs.join(sep)\<close> on an array of strings.\<close>

fun js_join :: "jsstring \<Rightarrow> jsstring list \<Rightarrow> jsstring" where
  "js_join sep [] = []"
| "js_join sep [l] = l"
| "js_join sep (l # ls) = l @ sep @ js_join sep ls"

subsection \<open>toBulletList\<close>

text \<open>\<open>text.split("\n")\<close>: \<open>cur\<close> is the current line, reversed.\<close>

fun split_acc :: "jsstring \<Rightarrow> jsstring \<Rightarrow> jsstring list" where
  "split_acc cur [] = [rev cur]"
| "split_acc cur (x # xs) =
     (if x = 0x000A then rev cur # split_acc [] xs else split_acc (x # cur) xs)"

definition split_lines :: "jsstring \<Rightarrow> jsstring list" where
  "split_lines t = split_acc [] t"

text \<open>\<open>line.replace(/^\*?\s*/g, "")\<close>: the pattern is anchored at the start of the line,
  so it matches once; \<open>\*?\<close> takes a star (U+002A) when the line starts with one, \<open>\s*\<close>
  the longest run of white space after it.\<close>

fun optional_star :: "jsstring \<Rightarrow> jsstring" where
  "optional_star [] = []"
| "optional_star (x # xs) = (if x = 0x002A then xs else x # xs)"

definition strip_bullet :: "jsstring \<Rightarrow> jsstring" where
  "strip_bullet l = dropWhile is_space (optional_star l)"

definition trim :: "jsstring \<Rightarrow> jsstring" where
  "trim l = rev (dropWhile is_space (rev (dropWhile is_space l)))"

definition toBulletList :: "jsstring option \<Rightarrow> jsstring list" where
  "toBulletList text =
     (case text of
        None \<Rightarrow> []
      | Some t \<Rightarrow>
          if t = [] then []
          else filter (\<lambda>line. length (trim line) > 0) (map strip_bullet (split_lines t)))"

text \<open>The description of the result in words: the lines of the text, each without its
  one optional leading star and the white space after it, those that consist of white
  space only (or of nothing) left out. \<open>join_lines\<close> puts the newlines back.\<close>

definition join_lines :: "jsstring list \<Rightarrow> jsstring" where
  "join_lines ls = js_join [0x000A] ls"

definition whitespace_only :: "jsstring \<Rightarrow> bool" where
  "whitespace_only l = list_all is_space l"

definition bullet_lines :: "jsstring \<Rightarrow> jsstring list" where
  "bullet_lines t = filter (\<lambda>l. \<not> whitespace_only l) (map strip_bullet (split_lines t))"

section \<open>AISummary: loading and showing the AI data\<close>

text \<open>A value of the \<open>summary\<close> object of a case: a text, an array of texts, or \<open>null\<close>.\<close>

datatype summary_value = TextValue jsstring | ListValue "jsstring list" | NullValue

text \<open>The AI data object, with the fields the page reads; each may be absent.
  \<open>ad_topPredictions\<close> holds the \<open>name\<close> of every prediction, \<open>ad_summary\<close> the entries of
  the \<open>summary\<close> object in the order of \<open>Object.entries\<close>. The prefix \<open>ad_\<close> only keeps the
  field names apart from those of the other records.\<close>

record ai_data =
  ad_topPredictions :: "jsstring list option"
  ad_symptoms :: "jsstring list option"
  ad_medications :: "jsstring list option"
  ad_woundCare :: "jsstring option"
  ad_homeCare :: "jsstring option"
  ad_redFlags :: "jsstring list option"
  ad_mostLikelyDiagnosis :: "jsstring option"
  ad_recommendedAction :: "jsstring option"
  ad_classification :: "jsstring option"
  ad_specialists :: "jsstring list option"
  ad_summary :: "(jsstring \<times> summary_value) list option"

text \<open>The patient handed over through the router's \<open>location.state\<close>, with the two fields
  that decide what is loaded and shown; \<open>aiSummary\<close> may be absent.\<close>

record patient =
  patient_conditionType :: jsstring
  aiSummary :: "ai_data option"

text \<open>Body of the response of \<open>GET /cases/{ref}\<close>; \<open>cases\<close> may be absent.\<close>

record cases_data =
  cases :: "ai_data list option"

record summary_state =
  sm_loading :: bool
  aiData :: "ai_data option"
  sm_error :: string

definition summary_init :: summary_state where
  "summary_init = \<lparr> sm_loading = True, aiData = None, sm_error = [] \<rparr>"

text \<open>\<open>params.get("ref")\<close> is \<open>null\<close> when the query has no \<open>ref\<close>; the template literal
  renders \<open>null\<close> as the text \<open>null\<close>.\<close>

definition cases_url :: "jsstring option \<Rightarrow> jsstring" where
  "cases_url r = js ''/cases/'' @ (case r of None \<Rightarrow> js ''null'' | Some t \<Rightarrow> t)"

text \<open>\<open>cases.length > 0 ? cases[cases.length - 1] : null\<close> on \<open>res.data.cases || []\<close>.\<close>

definition latest_case :: "cases_data \<Rightarrow> ai_data option" where
  "latest_case d =
     (case cases d of
        None \<Rightarrow> None
      | Some cs \<Rightarrow> if length cs > 0 then Some (cs ! (length cs - 1)) else None)"

text \<open>The effect of \<open>useEffect\<close>: the GET requests issued and the state once \<open>loadAI\<close> has
  finished. \<open>out\<close> is the outcome of the GET and is read only where the request is made.\<close>

definition loadAI ::
  "jsstring option \<Rightarrow> patient \<Rightarrow> cases_data outcome \<Rightarrow> jsstring list \<times> summary_state" where
  "loadAI r p out =
     (if patient_conditionType p = js ''wound'' \<or> patient_conditionType p = js ''skin''
      then ([], summary_init\<lparr> aiData := aiSummary p, sm_loading := False \<rparr>)
      else
        ([cases_url r],
         case out of
           Rejected \<Rightarrow>
             summary_init\<lparr> sm_error := ''Failed to load AI Summary.'', sm_loading := False \<rparr>
         | Resolved d \<Rightarrow> summary_init\<lparr> aiData := latest_case d, sm_loading := False \<rparr>))"

definition summary_effect ::
  "jsstring option \<Rightarrow> patient option \<Rightarrow> cases_data outcome \<Rightarrow> jsstring list \<times> summary_state" where
  "summary_effect r pp out =
     (case pp of
        None \<Rightarrow> ([], summary_init\<lparr> sm_error := ''No patient data received.'', sm_loading := False \<rparr>)
      | Some p \<Rightarrow> loadAI r p out)"

subsection \<open>What the page shows\<close>

text \<open>A line \<open><b>label:</b> {value}\<close> of a block; an absent value shows nothing after the
  label. \<open>xs?.join(", ")\<close> is absent when the array is.\<close>

datatype line = Line string "jsstring option"

definition joined :: "jsstring list option \<Rightarrow> jsstring option" where
  "joined xs = map_option (js_join (js '', '')) xs"

definition wound_lines :: "ai_data \<Rightarrow> line list" where
  "wound_lines a =
     [Line ''Top Predictions'' (joined (ad_topPredictions a)),
      Line ''Symptoms'' (joined (ad_symptoms a)),
      Line ''Medications'' (joined (ad_medications a)),
      Line ''Wound Care'' (ad_woundCare a),
      Line ''Home Care'' (ad_homeCare a),
      Line ''Red Flags'' (joined (ad_redFlags a))]"

definition skin_lines :: "ai_data \<Rightarrow> line list" where
  "skin_lines a =
     [Line ''Top Predictions'' (joined (ad_topPredictions a)),
      Line ''Diagnosis'' (ad_mostLikelyDiagnosis a),
      Line ''Recommended Action'' (ad_recommendedAction a),
      Line ''Red Flags'' (joined (ad_redFlags a))]"

definition other_lines :: "ai_data \<Rightarrow> line list" where
  "other_lines a =
     [Line ''Classification'' (ad_classification a),
      Line ''Symptoms'' (joined (ad_symptoms a)),
      Line ''Specialists'' (joined (ad_specialists a))]"

text \<open>The detailed summary: one section for every entry whose value passes
  \<open>value && value.length !== 0\<close>, headed by \<open>key.replace(/_/g, " ")\<close>, listing the array's
  items or, for a text, \<open>toBulletList(value)\<close>.\<close>

fun entry_shown :: "jsstring \<times> summary_value \<Rightarrow> bool" where
  "entry_shown (k, TextValue t) = (t \<noteq> [])"
| "entry_shown (k, ListValue xs) = (xs \<noteq> [])"
| "entry_shown (k, NullValue) = False"

fun entry_items :: "summary_value \<Rightarrow> jsstring list" where
  "entry_items (ListValue xs) = xs"
| "entry_items (TextValue t) = toBulletList (Some t)"
| "entry_items NullValue = toBulletList None"

definition entry_heading :: "jsstring \<Rightarrow> jsstring" where
  "entry_heading k = map (\<lambda>c. if c = 0x005F then 0x0020 else c) k"

definition summary_sections ::
  "(jsstring \<times> summary_value) list \<Rightarrow> (jsstring \<times> jsstring list) list" where
  "summary_sections sm =
     map (\<lambda>(k, v). (entry_heading k, entry_items v)) (filter entry_shown sm)"

datatype block =
    WoundBlock "line list"
  | SkinBlock "line list"
  | OtherBlock "line list" "(jsstring \<times> jsstring list) list"

text \<open>The heading of the results is the concatenation of three conditional texts (on
  screen each follows an emoji), the blocks below it are guarded in the same way.\<close>

definition results_title :: "jsstring \<Rightarrow> string" where
  "results_title ct =
     (if ct = js ''wound'' then ''WoundCare AI Results'' else []) @
     (if ct = js ''skin'' then ''SkinCare AI Results'' else []) @
     (if ct = js ''other'' then ''RuralCare AI Results'' else [])"

text \<open>\<open>Object.entries(aiData.summary)\<close> raises a TypeError when the case has no
  \<open>summary\<close>.\<close>

definition results_blocks :: "jsstring \<Rightarrow> ai_data \<Rightarrow> error + block list" where
  "results_blocks ct a =
     (let shown = (if ct = js ''wound'' then [WoundBlock (wound_lines a)] else []) @
                  (if ct = js ''skin'' then [SkinBlock (skin_lines a)] else [])
      in if ct = js ''other'' then
           (case ad_summary a of
              None \<Rightarrow> Inl TypeError
            | Some sm \<Rightarrow> Inr (shown @ [OtherBlock (other_lines a) (summary_sections sm)]))
         else Inr shown)"

datatype summary_card = NoSummary string | Results string "block list"

datatype summary_view =
    LoadingView
  | ErrorView string
  | PageView summary_card
  | RenderError error

text \<open>The render of the page, as far as the summary card goes (the patient card above it
  shows the patient's name, id, gender, age and condition). Without a patient the page
  has set its error text; reading \<open>patient.firstName\<close> on \<open>null\<close> would raise.\<close>

definition summary_render :: "patient option \<Rightarrow> summary_state \<Rightarrow> summary_view" where
  "summary_render pp s =
     (if sm_loading s then LoadingView
      else if sm_error s \<noteq> [] then ErrorView (sm_error s)
      else case pp of
             None \<Rightarrow> RenderError TypeError
           | Some p \<Rightarrow>
               (case aiData s of
                  None \<Rightarrow> PageView (NoSummary ''No AI summary available.'')
                | Some a \<Rightarrow>
                    (case results_blocks (patient_conditionType p) a of
                       Inl e \<Rightarrow> RenderError e
                     | Inr bs \<Rightarrow> PageView (Results (results_title (patient_conditionType p)) bs))))"

section \<open>WoundCareAI: fetching the patient's image\<close>

record photo =
  url :: string

text \<open>Body of the response of \<open>GET /patients/{ref}\<close>; \<open>photos\<close> may be absent, and the
  body itself may be \<open>null\<close> (\<open>res.data?.photos\<close>).\<close>

record patient_data =
  photos :: "photo list option"

text \<open>A rejected request carries \<open>err.response?.status\<close>, if there was a response.\<close>

datatype 'a http_result = HttpError "nat option" | HttpOk 'a

datatype page_effect =
    Get string
  | PageAlert string
  | ConsoleError
  | Redirect string

record page_state =
  wc_imageUrl :: "string option"
  wc_loading :: bool

definition page_init :: page_state where
  "page_init = \<lparr> wc_imageUrl = None, wc_loading = True \<rparr>"

text \<open>\<open>new URLSearchParams(window.location.search).get('ref') || ''\<close>\<close>

definition page_ref :: "string option \<Rightarrow> string" where
  "page_ref q = (case q of None \<Rightarrow> [] | Some t \<Rightarrow> t)"

definition fetchPatientImage ::
  "string \<Rightarrow> patient_data option http_result \<Rightarrow> page_effect list \<times> page_state" where
  "fetchPatientImage r out =
     (case out of
        HttpOk d \<Rightarrow>
          (case (case d of None \<Rightarrow> [] | Some pd \<Rightarrow> (case photos pd of None \<Rightarrow> [] | Some ps \<Rightarrow> ps)) of
             p # ps \<Rightarrow>
               ([Get (''/patients/'' @ r)], page_init\<lparr> wc_imageUrl := Some (url p), wc_loading := False \<rparr>)
           | [] \<Rightarrow>
               ([Get (''/patients/'' @ r), PageAlert ''No image found for this patient.''],
                page_init\<lparr> wc_loading := False \<rparr>))
      | HttpError st \<Rightarrow>
          (if st = Some 401
           then ([Get (''/patients/'' @ r), ConsoleError,
                  PageAlert ''Session expired. Please log in again.'', Redirect ''/login''],
                 page_init\<lparr> wc_loading := False \<rparr>)
           else ([Get (''/patients/'' @ r), ConsoleError, PageAlert ''Failed to fetch patient data.''],
                 page_init\<lparr> wc_loading := False \<rparr>)))"

text \<open>The effect of \<open>useEffect\<close>: \<open>if (ref) fetchPatientImage()\<close>; the empty string is
  falsy.\<close>

definition page_effect_run ::
  "string option \<Rightarrow> patient_data option http_result \<Rightarrow> page_effect list \<times> page_state" where
  "page_effect_run q out =
     (if page_ref q \<noteq> [] then fetchPatientImage (page_ref q) out else ([], page_init))"

fun is_get :: "page_effect \<Rightarrow> bool" where
  "is_get (Get u) = True"
| "is_get other = False"

text \<open>What the card shows: the loading line, and below it either the image (its \<open>src\<close>)
  with the analysis component (its props), or the no-image message (on screen it follows
  a warning sign), or nothing. \<open>imageUrl ? ... : ...\<close> takes the first branch for a
  non-empty string.\<close>

datatype card = ImageAndAnalysis string props | NoImageMessage string | Nothing

definition analysis_card :: "string \<Rightarrow> string \<Rightarrow> card" where
  "analysis_card r u =
     ImageAndAnalysis u \<lparr> conditionType = ''wound'', imageUrl = u, patientRef = r \<rparr>"

definition page_render :: "string \<Rightarrow> page_state \<Rightarrow> bool \<times> card" where
  "page_render r s =
     (wc_loading s,
      case wc_imageUrl s of
        None \<Rightarrow> if \<not> wc_loading s then NoImageMessage ''No image available for this patient.'' else Nothing
      | Some u \<Rightarrow>
          if u \<noteq> [] then analysis_card r u
          else if \<not> wc_loading s then NoImageMessage ''No image available for this patient.''
          else Nothing)"

section \<open>Example runs\<close>

definition wound_props :: props where
  "wound_props = \<lparr> conditionType = ''wound'', imageUrl = ''/img/p1.jpg'', patientRef = ''P1'' \<rparr>"

definition stage1_no_questions :: "rat stage1_data" where
  "stage1_no_questions =
     \<lparr> top3_classes = [''burn'', ''cut''], top3_probs = [7 / 10, 3 / 10],
       rag_summary = ''Keep clean.'', questions = Some [] \<rparr>"

definition stage1_one_question :: "rat stage1_data" where
  "stage1_one_question =
     \<lparr> top3_classes = [''burn'', ''cut''], top3_probs = [7 / 10, 3 / 10],
       rag_summary = ''Keep clean.'', questions = Some [''Any pain?''] \<rparr>"

definition stage1_two_questions :: "rat stage1_data" where
  "stage1_two_questions =
     \<lparr> top3_classes = [''burn'', ''cut''], top3_probs = [7 / 10, 3 / 10],
       rag_summary = ''Keep clean.'', questions = Some [''Any pain?'', ''Any pus?''] \<rparr>"

text \<open>The user clicks the analyze button, the image is fetched and read, and stage 1
  answers with \<open>d\<close>.\<close>

definition analysis :: "'n stage1_data \<Rightarrow> 'n event list" where
  "analysis d =
     [ClickAnalyze, Settle 0 (Resolved RFetch), Settle 0 (Resolved (RBlob ''jpeg'')),
      Settle 0 (Resolved (RStage1 d))]"

text \<open>Configurations along the run in which stage 1 asks one question, the user answers
  \<open>no\<close>, and stage 2 returns a report.\<close>

definition analyzing_config :: "rat config" where
  "analyzing_config =
     \<lparr> ui = \<lparr> stage = Analyzing, loading = True, stage1Result = None, answers = [],
              currentQ = 0, finalReport = None \<rparr>,
       pending = [AwaitFetch (ui init)],
       trace = [SetLoading True, SetStage Analyzing, Send (FetchImage ''/img/p1.jpg'')] \<rparr>"

definition fetch_failed_config :: "rat config" where
  "fetch_failed_config =
     \<lparr> ui = ui init,
       pending = [],
       trace = [SetLoading True, SetStage Analyzing, Send (FetchImage ''/img/p1.jpg''),
                Caught NetworkError, Alert ''Error analyzing image. Check AI backend logs.'',
                SetStage Idle, SetLoading False] \<rparr>"

definition answered_ui :: "rat ui_state" where
  "answered_ui =
     \<lparr> stage = Questions, loading = False, stage1Result = Some stage1_one_question,
       answers = [Some ''no''], currentQ = 0, finalReport = None \<rparr>"

definition answered_trace :: "rat effect list" where
  "answered_trace =
     [SetLoading True, SetStage Analyzing, Send (FetchImage ''/img/p1.jpg''), ReadBlob,
      Send (PostStage1 ''http://localhost:5001/api/wound_stage1'' ''jpeg''),
      SetStage1Result stage1_one_question, SetAnswers [Some []], SetStage Questions,
      SetLoading False, SetAnswers [Some ''no'']]"

definition answered_config :: "rat config" where
  "answered_config = \<lparr> ui = answered_ui, pending = [], trace = answered_trace \<rparr>"

definition one_question_payload :: "rat stage2_payload" where
  "one_question_payload =
     \<lparr> s2_top3_classes = [''burn'', ''cut''], s2_top3_probs = [7 / 10, 3 / 10],
       s2_rag_summary = ''Keep clean.'', s2_questions = Some [''Any pain?''],
       s2_answers = [Some ''no''], s2_patient_ref = ''P1'', s2_image_url = ''/img/p1.jpg'' \<rparr>"

definition submit_effects :: "rat effect list" where
  "submit_effects =
     [SetLoading True, SetStage Generating,
      Send (PostStage2 ''http://localhost:5001/api/wound_stage2'' one_question_payload)]"

definition generating_config :: "rat config" where
  "generating_config =
     \<lparr> ui = answered_ui\<lparr> stage := Generating, loading := True \<rparr>,
       pending = [AwaitStage2 answered_ui],
       trace = answered_trace @ submit_effects \<rparr>"

definition report_body :: stage2_data where
  "report_body = \<lparr> final_report = Some ''Dress daily.'' \<rparr>"

definition one_question_save :: "rat save_body" where
  "one_question_save =
     \<lparr> sv_patient_ref = ''P1'', sv_data_key = ''wound_result'',
       sv_data_value =
         \<lparr> topPredictions =
             [\<lparr> name = ''burn'', confidence = ToFixed2 (7 / 10) \<rparr>,
              \<lparr> name = ''cut'', confidence = ToFixed2 (3 / 10) \<rparr>],
           aiFinalReport = Some ''Dress daily.'',
           ragSummary = ''Keep clean.'',
           patientAnswers = [Some ''no''] \<rparr> \<rparr>"

definition report_effects :: "rat effect list" where
  "report_effects =
     [SetFinalReport ''Dress daily.'', SetStage Report,
      Send (PostSave ''/patients/ai/save-woundcare'' one_question_save)]"

definition report_config :: "rat config" where
  "report_config =
     \<lparr> ui = answered_ui\<lparr> stage := Report, loading := True, finalReport := Some ''Dress daily.'' \<rparr>,
       pending = [AwaitSave answered_ui],
       trace = answered_trace @ submit_effects @ report_effects \<rparr>"

text \<open>A second analysis after a failed submission: two questions are asked and answered,
  stage 2 is rejected, the user analyzes again, gets the same two questions, types one
  answer and presses the button.\<close>

definition second_flow :: "rat event list" where
  "second_flow =
     analysis stage1_two_questions @
     [TypeAnswer ''yes'', ClickNext, TypeAnswer ''no'', ClickNext, Settle 0 Rejected] @
     analysis stage1_two_questions @
     [TypeAnswer ''no'', ClickNext]"

text \<open>A failed submission followed by an analysis to which stage 1 answers without
  questions: one question is asked and answered, stage 2 is rejected, the user analyzes
  again, and stage 1 returns another result, with no questions.\<close>

definition stage1_second :: "rat stage1_data" where
  "stage1_second =
     \<lparr> top3_classes = [''ulcer''], top3_probs = [9 / 10],
       rag_summary = ''Offload.'', questions = Some [] \<rparr>"

definition repeat_flow :: "rat event list" where
  "repeat_flow =
     analysis stage1_one_question @
     [TypeAnswer ''no'', ClickNext, Settle 0 Rejected] @
     analysis stage1_second"

text \<open>Inputs for the two pages.\<close>

definition no_fields :: ai_data where
  "no_fields =
     \<lparr> ad_topPredictions = None, ad_symptoms = None, ad_medications = None,
       ad_woundCare = None, ad_homeCare = None, ad_redFlags = None,
       ad_mostLikelyDiagnosis = None, ad_recommendedAction = None,
       ad_classification = None, ad_specialists = None, ad_summary = None \<rparr>"

definition case_a :: ai_data where
  "case_a = no_fields\<lparr> ad_classification := Some (js ''PCP''), ad_summary := Some [] \<rparr>"

definition case_b :: ai_data where
  "case_b =
     no_fields
       \<lparr> ad_classification := Some (js ''MDT''),
         ad_symptoms := Some [js ''fever'', js ''cough''],
         ad_summary :=
           Some [(js ''home_care'', TextValue (js ''* rest\<newline>* fluids'')),
                 (js ''red_flags'', ListValue [js ''chest pain'']),
                 (js ''notes'', NullValue)] \<rparr>"

definition case_without_summary :: ai_data where
  "case_without_summary = no_fields\<lparr> ad_classification := Some (js ''PCP'') \<rparr>"

definition skin_summary :: ai_data where
  "skin_summary = no_fields\<lparr> ad_mostLikelyDiagnosis := Some (js ''eczema'') \<rparr>"

definition other_patient :: patient where
  "other_patient = \<lparr> patient_conditionType = js ''other'', aiSummary = None \<rparr>"

definition rural_patient :: patient where
  "rural_patient = \<lparr> patient_conditionType = js ''rural'', aiSummary = None \<rparr>"

definition skin_patient :: patient where
  "skin_patient = \<lparr> patient_conditionType = js ''skin'', aiSummary = Some skin_summary \<rparr>"

definition two_cases :: "cases_data outcome" where
  "two_cases = Resolved \<lparr> cases = Some [case_a, case_b] \<rparr>"

definition no_cases :: "cases_data outcome" where
  "no_cases = Resolved \<lparr> cases = Some [] \<rparr>"

definition one_case_without_summary :: "cases_data outcome" where
  "one_case_without_summary = Resolved \<lparr> cases = Some [case_without_summary] \<rparr>"

definition case_b_block :: block where
  "case_b_block =
     OtherBlock
       [Line ''Classification'' (Some (js ''MDT'')),
        Line ''Symptoms'' (Some (js ''fever, cough'')),
        Line ''Specialists'' None]
       [(js ''home care'', [js ''rest'', js ''fluids'']),
        (js ''red flags'', [js ''chest pain''])]"

definition two_photos :: patient_data where
  "two_photos = \<lparr> photos = Some [\<lparr> url = ''/img/a.jpg'' \<rparr>, \<lparr> url = ''/img/b.jpg'' \<rparr>] \<rparr>"

definition no_photos :: patient_data where
  "no_photos = \<lparr> photos = Some [] \<rparr>"

text \<open>A text with a line of U+3000 and U+2003 and a line that starts with U+FEFF.\<close>

definition summary_text :: jsstring where
  "summary_text =
     js ''* rest\<newline>'' @ [0x3000, 0x2003] @ js ''\<newline>** ice \<newline>*\<newline>'' @ [0xFEFF] @ js '' warm''"

section \<open>The reachable configurations\<close>

lemmas segment_defs = handleSubmitAnswers_def handleAnalyze_def analyze_without_questions_def
  analyze_with_questions_def handleAnswerChange_def nextQuestion_def apply_effects_def

lemma run_snoc:
  "run pr (es @ [e]) c = (case run pr es c of None \<Rightarrow> None | Some c' \<Rightarrow> step pr e c')"
  by (induction es arbitrary: c) (auto split: option.splits)

lemma run_reachable: "run pr es init = Some c \<Longrightarrow> reachable pr c"
proof (induction es arbitrary: c rule: rev_induct)
  case Nil
  then show ?case by (simp add: reachable_init)
next
  case (snoc e es)
  then show ?case
    by (auto simp: run_snoc split: option.splits intro: reachable_step)
qed

lemma step_fire:
  "step pr e c = Some c' \<Longrightarrow>
     \<exists>ps k. fire pr e c = Some (ps, effects_of pr e c, k) \<and>
            ui c' = apply_effects (ui c) (effects_of pr e c) \<and>
            pending c' = ps @ (case k of None \<Rightarrow> [] | Some t \<Rightarrow> [t]) \<and>
            trace c' = trace c @ effects_of pr e c"
  by (auto simp: step_def effects_of_def split: option.splits)

lemma fire_settle:
  "fire pr (Settle i out) c = Some (ps, effs, k) \<Longrightarrow>
     i < length (pending c) \<and> ps = remove_nth i (pending c) \<and>
     resume pr (pending c ! i) out = Some (effs, k)"
  by (auto split: if_splits option.splits)

lemma wf_init: "wf init"
  by (simp add: wf_def init_def)

lemma task_ok_stage: "task_ok u t \<Longrightarrow> stage u \<noteq> Idle \<and> stage u \<noteq> Questions"
  by (cases t) auto

lemma wf_nth: "wf c \<Longrightarrow> i < length (pending c) \<Longrightarrow> task_ok (ui c) (pending c ! i)"
  by (simp add: wf_def list_all_length)

lemma wf_click:
  assumes "wf c" and "step pr ClickAnalyze c = Some c'"
  shows "wf c'"
  using assms
  by (cases "pending c")
     (auto simp: wf_def step_def segment_defs split: if_splits dest: task_ok_stage)

lemma wf_type:
  assumes "wf c" and "step pr (TypeAnswer v) c = Some c'"
  shows "wf c'"
  using assms
  by (cases "pending c")
     (auto simp: wf_def step_def segment_defs shows_questions_def
           split: if_splits dest: task_ok_stage)

lemma wf_next:
  assumes "wf c" and "step pr ClickNext c = Some c'"
  shows "wf c'"
  using assms
  by (cases "pending c")
     (auto simp: wf_def step_def segment_defs shows_questions_def
           split: if_splits option.splits sum.splits dest: task_ok_stage)

lemma wf_resume:
  assumes "task_ok u t" and "resume pr t out = Some (effs, k)"
  shows "list_all (task_ok (apply_effects u effs)) (case k of None \<Rightarrow> [] | Some t' \<Rightarrow> [t'])"
  using assms
  by (cases "(pr, t, out)" rule: resume.cases)
     (auto simp: segment_defs split: if_splits option.splits prod.splits)

lemma wf_settle:
  assumes "wf c" and "step pr (Settle i out) c = Some c'"
  shows "wf c'"
proof -
  from step_fire[OF assms(2)] obtain ps k where
    f: "fire pr (Settle i out) c = Some (ps, effects_of pr (Settle i out) c, k)"
    and u: "ui c' = apply_effects (ui c) (effects_of pr (Settle i out) c)"
    and p: "pending c' = ps @ (case k of None \<Rightarrow> [] | Some t \<Rightarrow> [t])"
    by blast
  from fire_settle[OF f] have i: "i < length (pending c)"
    and ps: "ps = remove_nth i (pending c)"
    and r: "resume pr (pending c ! i) out = Some (effects_of pr (Settle i out) c, k)"
    by simp_all
  from assms(1) i obtain t where pc: "pending c = [t]" and i0: "i = 0"
    by (cases "pending c") (auto simp: wf_def)
  from wf_resume[OF wf_nth[OF assms(1) i] r] u
  have "list_all (task_ok (ui c')) (case k of None \<Rightarrow> [] | Some t' \<Rightarrow> [t'])"
    by simp
  then show ?thesis
    by (simp add: p ps pc i0 wf_def remove_nth_def split: option.splits)
qed

lemma wf_step: "wf c \<Longrightarrow> step pr e c = Some c' \<Longrightarrow> wf c'"
  by (cases e) (auto intro: wf_click wf_type wf_next wf_settle)

lemma reachable_wf: "reachable pr c \<Longrightarrow> wf c"
  by (induction rule: reachable.induct) (auto intro: wf_init wf_step)

subsection \<open>What one segment does\<close>

lemma resume_walk:
  assumes "task_ok u t" and "resume pr t out = Some (effs, k)"
  shows "stage_walk (stage u) False effs \<and>
         (stage (apply_effects u effs) = stage u \<or>
          advance (stage u) (stage (apply_effects u effs)) \<or>
          (stage (apply_effects u effs) = Idle \<and> list_ex is_caught effs))"
  using assms
  by (cases "(pr, t, out)" rule: resume.cases)
     (auto simp: segment_defs split: if_splits option.splits prod.splits)

lemma fire_walk:
  assumes "wf c" and "fire pr e c = Some (ps, effs, k)"
  shows "stage_walk (stage (ui c)) False effs \<and>
         (stage (apply_effects (ui c) effs) = stage (ui c) \<or>
          advance (stage (ui c)) (stage (apply_effects (ui c) effs)) \<or>
          (stage (apply_effects (ui c) effs) = Idle \<and> list_ex is_caught effs))"
proof (cases e)
  case ClickAnalyze
  with assms show ?thesis by (auto simp: segment_defs split: if_splits)
next
  case (TypeAnswer v)
  with assms show ?thesis by (auto simp: segment_defs split: if_splits)
next
  case ClickNext
  with assms show ?thesis
    by (auto simp: segment_defs shows_questions_def split: if_splits option.splits sum.splits)
next
  case (Settle i out)
  with assms(2) have i: "i < length (pending c)"
    and r: "resume pr (pending c ! i) out = Some (effs, k)"
    using fire_settle by blast+
  from resume_walk[OF wf_nth[OF assms(1) i] r] show ?thesis .
qed

lemma resume_failure:
  assumes "resume pr t out = Some (effs, k)" and "list_ex is_caught effs"
  shows "length (filter is_alert effs) = 1 \<and> stage (apply_effects u effs) = Idle \<and> k = None"
  using assms
  by (cases "(pr, t, out)" rule: resume.cases)
     (auto simp: segment_defs split: if_splits option.splits prod.splits)

lemma fire_failure:
  assumes "fire pr e c = Some (ps, effs, k)" and "list_ex is_caught effs"
  shows "length (filter is_alert effs) = 1 \<and> stage (apply_effects (ui c) effs) = Idle \<and>
         k = None"
proof (cases e)
  case ClickAnalyze
  with assms show ?thesis by (auto simp: segment_defs split: if_splits)
next
  case (TypeAnswer v)
  with assms show ?thesis by (auto simp: segment_defs split: if_splits)
next
  case ClickNext
  with assms show ?thesis
    by (auto simp: segment_defs shows_questions_def split: if_splits option.splits sum.splits)
next
  case (Settle i out)
  with assms(1) have r: "resume pr (pending c ! i) out = Some (effs, k)"
    using fire_settle by blast
  from resume_failure[OF r assms(2)] show ?thesis .
qed

lemma resume_rejected:
  "\<exists>effs. resume pr t Rejected = Some (effs, None) \<and> list_ex is_caught effs"
  by (cases t) auto

lemma resume_sends:
  assumes "resume pr t out = Some (effs, k)"
  shows "length (filter is_send effs) \<le> length (case k of None \<Rightarrow> [] | Some t' \<Rightarrow> [t'])"
  using assms
  by (cases "(pr, t, out)" rule: resume.cases)
     (auto simp: segment_defs split: if_splits option.splits prod.splits)

lemma fire_sends:
  assumes "fire pr e c = Some (ps, effs, k)"
  shows "length (filter is_send effs) \<le> length (case k of None \<Rightarrow> [] | Some t' \<Rightarrow> [t'])"
proof (cases e)
  case ClickAnalyze
  with assms show ?thesis by (auto simp: segment_defs split: if_splits)
next
  case (TypeAnswer v)
  with assms show ?thesis by (auto simp: segment_defs split: if_splits)
next
  case ClickNext
  with assms show ?thesis
    by (auto simp: segment_defs shows_questions_def split: if_splits option.splits sum.splits)
next
  case (Settle i out)
  with assms have r: "resume pr (pending c ! i) out = Some (effs, k)"
    using fire_settle by blast
  from resume_sends[OF r] show ?thesis .
qed

subsection \<open>The example runs\<close>

lemma run_analyzing: "run wound_props [ClickAnalyze] init = Some analyzing_config"
  by code_simp

lemma run_answered:
  "run wound_props (analysis stage1_one_question @ [TypeAnswer ''no'']) init = Some answered_config"
  by code_simp

lemma run_generating:
  "run wound_props (analysis stage1_one_question @ [TypeAnswer ''no'', ClickNext]) init =
     Some generating_config"
  by code_simp

lemma step_fetch_failed:
  "step wound_props (Settle 0 Rejected) analyzing_config = Some fetch_failed_config"
  by code_simp

lemma step_submit: "step wound_props ClickNext answered_config = Some generating_config"
  by code_simp

lemma step_report:
  "step wound_props (Settle 0 (Resolved (RStage2 report_body))) generating_config =
     Some report_config"
  by code_simp

lemma effects_submit: "effects_of wound_props ClickNext answered_config = submit_effects"
  by code_simp

lemma effects_report:
  "effects_of wound_props (Settle 0 (Resolved (RStage2 report_body))) generating_config =
     report_effects"
  by code_simp

section \<open>Lemmas about the two pages\<close>

lemma trim_empty_iff: "(trim l = []) = whitespace_only l"
proof -
  have "(trim l = []) = (dropWhile is_space (rev (dropWhile is_space l)) = [])"
    unfolding trim_def by (simp only: rev_is_Nil_conv)
  also have "\<dots> = (\<forall>x\<in>set (dropWhile is_space l). is_space x)"
    by (simp only: dropWhile_eq_Nil_conv set_rev)
  also have "\<dots> = (dropWhile is_space l = [])"
  proof (cases "dropWhile is_space l")
    case Nil
    show ?thesis unfolding Nil by simp
  next
    case (Cons x xs)
    then have "\<not> is_space x" using hd_dropWhile[of is_space l] by auto
    then show ?thesis unfolding Cons by simp
  qed
  also have "\<dots> = list_all is_space l"
    by (simp only: dropWhile_eq_Nil_conv list_all_iff)
  finally show ?thesis by (simp add: whitespace_only_def)
qed

lemma split_acc_nonempty: "split_acc cur t \<noteq> []"
  by (induction t arbitrary: cur) auto

lemma js_join_Cons: "ls \<noteq> [] \<Longrightarrow> js_join sep (l # ls) = l @ sep @ js_join sep ls"
  by (cases ls) auto

lemma join_split_acc: "join_lines (split_acc cur t) = rev cur @ t"
  by (induction t arbitrary: cur)
     (auto simp: join_lines_def js_join_Cons split_acc_nonempty)

lemma split_acc_no_newline:
  "0x000A \<notin> set cur \<Longrightarrow> list_all (\<lambda>l. 0x000A \<notin> set l) (split_acc cur t)"
  by (induction t arbitrary: cur) auto

lemma last_case:
  "latest_case d =
     (case cases d of None \<Rightarrow> None | Some cs \<Rightarrow> if cs = [] then None else Some (last cs))"
  by (auto simp: latest_case_def last_conv_nth split: option.splits)

lemma js_literals:
  "js ''other'' \<noteq> js ''wound''" "js ''other'' \<noteq> js ''skin''" "js ''wound'' \<noteq> js ''skin''"
  by (simp_all add: js_def)

section \<open>Claims about AIImageAnalysis\<close>

text \<open>
  C1. A successful stage-1 response without questions should submit at once and take the
  stage to \<open>report\<close>, the report coming from the stage-2 response. On the first analysis
  the code does not get there: \<open>handleAnalyze\<close> calls \<open>handleSubmitAnswers([], res.data)\<close>,
  the callee has no parameters and reads the \<open>stage1Result\<close> of its closure, which is
  still \<open>null\<close>, so it raises a TypeError before any stage-2 request is sent, alerts, and
  sets the stage back to \<open>idle\<close>. The run below is the whole behaviour at that input.
\<close>

theorem no_questions_first_analysis_ends_idle:
  "run wound_props (analysis stage1_no_questions) init =
     Some \<lparr> ui = \<lparr> stage = Idle, loading = False, stage1Result = Some stage1_no_questions,
                    answers = [], currentQ = 0, finalReport = None \<rparr>,
            pending = [],
            trace =
              [SetLoading True, SetStage Analyzing, Send (FetchImage ''/img/p1.jpg''), ReadBlob,
               Send (PostStage1 ''http://localhost:5001/api/wound_stage1'' ''jpeg''),
               SetStage1Result stage1_no_questions,
               SetLoading True, SetStage Generating, Caught TypeError,
               Alert ''Error generating or saving report.'', SetStage Idle,
               SetLoading False, SetLoading False] \<rparr>"
  by code_simp

text \<open>
  C2. Whatever the event and the configuration, a step in which an exception reaches a
  \<open>catch\<close> block (a rejected request, or an exception raised while the response is being
  processed) shows exactly one alert and ends in stage \<open>idle\<close>; and every rejected
  promise, whichever \<open>await\<close> it belongs to, is such a step.
\<close>

theorem failure_alerts_once_and_resets:
  assumes "step pr e c = Some c'"
  shows "(list_ex is_caught (effects_of pr e c) \<longrightarrow>
            length (filter is_alert (effects_of pr e c)) = 1 \<and> stage (ui c') = Idle) \<and>
         ((\<exists>i. e = Settle i Rejected) \<longrightarrow> list_ex is_caught (effects_of pr e c))"
proof -
  from step_fire[OF assms] obtain ps k where
    f: "fire pr e c = Some (ps, effects_of pr e c, k)"
    and u: "ui c' = apply_effects (ui c) (effects_of pr e c)"
    by blast
  have "list_ex is_caught (effects_of pr e c)" if "e = Settle i Rejected" for i
  proof -
    from f that have "resume pr (pending c ! i) Rejected = Some (effects_of pr e c, k)"
      using fire_settle by blast
    with resume_rejected[of pr "pending c ! i"] show ?thesis by auto
  qed
  with fire_failure[OF f] u show ?thesis by auto
qed

theorem failure_alerts_once_and_resets_witness:
  "step wound_props (Settle 0 Rejected) analyzing_config = Some fetch_failed_config \<and>
   list_ex is_caught (effects_of wound_props (Settle 0 Rejected) analyzing_config) \<and>
   length (filter is_alert (effects_of wound_props (Settle 0 Rejected) analyzing_config)) = 1 \<and>
   stage (ui fetch_failed_config) = Idle"
  using failure_alerts_once_and_resets[OF step_fetch_failed] step_fetch_failed
  by blast

text \<open>
  C3. The stage is one of the five values, and in every step from a reachable
  configuration (one event: a click, a keystroke or a settled request) each write to the
  stage either advances along idle, analyzing, questions, generating, report, possibly
  from analyzing to generating, or writes \<open>idle\<close> right after an exception was caught. So
  does the step as a whole: the stage is unchanged, or has advanced, or is \<open>idle\<close> after
  an exception.
\<close>

theorem stage_transitions:
  assumes "reachable pr c" and "step pr e c = Some c'"
  shows "stage_walk (stage (ui c)) False (effects_of pr e c) \<and>
         ui c' = apply_effects (ui c) (effects_of pr e c) \<and>
         stage (ui c') \<in> {Idle, Analyzing, Questions, Generating, Report} \<and>
         (stage (ui c') = stage (ui c) \<or> advance (stage (ui c)) (stage (ui c')) \<or>
          (stage (ui c') = Idle \<and> list_ex is_caught (effects_of pr e c)))"
proof -
  from step_fire[OF assms(2)] obtain ps k where
    f: "fire pr e c = Some (ps, effects_of pr e c, k)"
    and u: "ui c' = apply_effects (ui c) (effects_of pr e c)"
    by blast
  have five: "stage (ui c') \<in> {Idle, Analyzing, Questions, Generating, Report}"
    by (cases "stage (ui c')") simp_all
  from fire_walk[OF reachable_wf[OF assms(1)] f] u five show ?thesis by simp
qed

theorem stage_transitions_witness:
  "reachable wound_props generating_config \<and>
   step wound_props (Settle 0 (Resolved (RStage2 report_body))) generating_config =
     Some report_config \<and>
   stage_walk (stage (ui generating_config)) False report_effects \<and>
   ui report_config = apply_effects (ui generating_config) report_effects \<and>
   stage (ui generating_config) = Generating \<and> stage (ui report_config) = Report \<and>
   advance (stage (ui generating_config)) (stage (ui report_config))"
proof -
  have r: "reachable wound_props generating_config"
    by (rule run_reachable[OF run_generating])
  have g: "stage (ui generating_config) = Generating"
    by (simp add: generating_config_def)
  have p: "stage (ui report_config) = Report"
    by (simp add: report_config_def)
  from stage_transitions[OF r step_report]
  have "stage_walk (stage (ui generating_config)) False report_effects \<and>
        ui report_config = apply_effects (ui generating_config) report_effects"
    by (simp add: effects_report)
  with r step_report g p show ?thesis by simp
qed

text \<open>
  C4. Every stage-2 submission should carry \<open>top3_classes\<close>, \<open>top3_probs\<close>,
  \<open>rag_summary\<close> and \<open>questions\<close> of the stored stage-1 result and the collected answers.
  The submission from the question form does. The one that \<open>handleAnalyze\<close> makes when
  stage 1 returns no questions does not: \<open>handleSubmitAnswers([], res.data)\<close> runs on the
  closure of the render in which the button was clicked, so after
  \<open>setStage1Result(res.data)\<close> it posts the result and the answers of the previous
  analysis. The run below ends with that step: the result just stored is
  \<open>stage1_second\<close>, the body posted is the one of the first analysis.
\<close>

theorem repeat_analysis_posts_previous_result:
  "map_option (\<lambda>c. (stage1Result (ui c), answers (ui c), rev (take 5 (rev (trace c)))))
     (run wound_props repeat_flow init) =
   Some (Some stage1_second, [Some ''no''],
         [SetStage1Result stage1_second, SetLoading True, SetStage Generating,
          Send (PostStage2 ''http://localhost:5001/api/wound_stage2''
                  \<lparr> s2_top3_classes = [''burn'', ''cut''], s2_top3_probs = [7 / 10, 3 / 10],
                    s2_rag_summary = ''Keep clean.'', s2_questions = Some [''Any pain?''],
                    s2_answers = [Some ''no''],
                    s2_patient_ref = ''P1'', s2_image_url = ''/img/p1.jpg'' \<rparr>),
          SetLoading False])"
  by code_simp



text \<open>
  C6. In every reachable configuration at most one handler is suspended on a request;
  every request a step sends is awaited by the handler that the step leaves suspended,
  so a step sends at most one; and \<open>handleAnalyze\<close> invoked while \<open>loading\<close> is true does
  nothing: no effect, no request, nothing to wait for.
\<close>

theorem single_request_in_flight:
  assumes "reachable pr c" and "step pr e c = Some c'" and "loading s"
  shows "length (pending c) \<le> 1 \<and> length (pending c') \<le> 1 \<and>
         length (filter is_send (effects_of pr e c)) \<le> length (pending c') \<and>
         handleAnalyze pr s = ([], None)"
proof -
  from step_fire[OF assms(2)] obtain ps k where
    f: "fire pr e c = Some (ps, effects_of pr e c, k)"
    and p: "pending c' = ps @ (case k of None \<Rightarrow> [] | Some t \<Rightarrow> [t])"
    by blast
  from reachable_wf[OF assms(1)] have "length (pending c) \<le> 1"
    by (simp add: wf_def)
  moreover from reachable_wf[OF reachable_step[OF assms(1,2)]] have "length (pending c') \<le> 1"
    by (simp add: wf_def)
  moreover from fire_sends[OF f] p
  have "length (filter is_send (effects_of pr e c)) \<le> length (pending c')"
    by simp
  moreover from assms(3) have "handleAnalyze pr s = ([], None)"
    by (simp add: handleAnalyze_def)
  ultimately show ?thesis by simp
qed

theorem single_request_in_flight_witness:
  "reachable wound_props answered_config \<and>
   step wound_props ClickNext answered_config = Some generating_config \<and>
   loading (ui generating_config) \<and>
   length (pending answered_config) \<le> 1 \<and> length (pending generating_config) \<le> 1 \<and>
   length (filter is_send submit_effects) \<le> length (pending generating_config) \<and>
   handleAnalyze wound_props (ui generating_config) = ([], None)"
proof -
  have r: "reachable wound_props answered_config"
    by (rule run_reachable[OF run_answered])
  have l: "loading (ui generating_config)"
    by (simp add: generating_config_def)
  from single_request_in_flight[OF r step_submit l] r l step_submit
  show ?thesis by (simp add: effects_submit)
qed

text \<open>
  C9. \<open>nextQuestion\<close> should let no unanswered question through, so that every entry of
  the answers array is a non-empty string when the answers are submitted. \<open>currentQ\<close> is
  never set back: after a failed submission the next analysis resets the answers to
  empty strings but starts the form at the last question, and the run below submits
  with the first answer still empty.
\<close>

theorem second_flow_submits_empty_answer:
  "map_option (\<lambda>c. (currentQ (ui c), answers (ui c), last (trace c)))
     (run wound_props second_flow init) =
   Some (1, [Some [], Some ''no''],
         Send (PostStage2 ''http://localhost:5001/api/wound_stage2''
                 \<lparr> s2_top3_classes = [''burn'', ''cut''], s2_top3_probs = [7 / 10, 3 / 10],
                   s2_rag_summary = ''Keep clean.'',
                   s2_questions = Some [''Any pain?'', ''Any pus?''],
                   s2_answers = [Some [], Some ''no''],
                   s2_patient_ref = ''P1'', s2_image_url = ''/img/p1.jpg'' \<rparr>))"
  by code_simp

section \<open>Claims about AISummary and WoundCareAI\<close>

text \<open>
  C7, as stated, fails. With a condition type that is neither \<open>wound\<close> nor \<open>skin\<close> the page
  does send \<open>GET /cases/{ref}\<close> and does keep the last case as its AI data, but it shows
  that case only under \<open>conditionType === "other"\<close>: for the condition type \<open>rural\<close> the
  results have an empty heading and no block. (And for \<open>other\<close> a case without a
  \<open>summary\<close> object makes the render raise.)
\<close>

theorem rural_case_not_shown:
  "patient_conditionType rural_patient \<noteq> js ''wound'' \<and>
   patient_conditionType rural_patient \<noteq> js ''skin'' \<and>
   fst (summary_effect (Some (js ''R1'')) (Some rural_patient) two_cases) = [js ''/cases/R1''] \<and>
   aiData (snd (summary_effect (Some (js ''R1'')) (Some rural_patient) two_cases)) = Some case_b \<and>
   summary_render (Some rural_patient)
       (snd (summary_effect (Some (js ''R1'')) (Some rural_patient) two_cases)) =
     PageView (Results [] []) \<and>
   summary_render (Some other_patient)
       (snd (summary_effect (Some (js ''R1'')) (Some other_patient) one_case_without_summary)) =
     RenderError TypeError"
  by code_simp

text \<open>
  C7, amended. With a patient whose \<open>conditionType\<close> is neither \<open>wound\<close> nor \<open>skin\<close>, the
  page sends \<open>GET /cases/{ref}\<close>; when the request resolves, the AI data is the last element
  of the returned \<open>cases\<close> array, or \<open>null\<close> when the array is empty or missing, and then
  the page shows \<open>No AI summary available.\<close>; the page shows the last case (its
  classification, symptoms, specialists and the sections of its summary) when
  \<open>conditionType\<close> is \<open>other\<close> and the case has a summary object. With \<open>wound\<close> or \<open>skin\<close>
  the AI data is the patient's \<open>aiSummary\<close> and no request is sent.
\<close>

theorem last_case_shown_for_other:
  "(patient_conditionType p \<noteq> js ''wound'' \<and> patient_conditionType p \<noteq> js ''skin'' \<longrightarrow>
      fst (summary_effect r (Some p) out) =
        [js ''/cases/'' @ (case r of None \<Rightarrow> js ''null'' | Some t \<Rightarrow> t)] \<and>
      (\<forall>d. out = Resolved d \<longrightarrow>
         snd (summary_effect r (Some p) out) =
           \<lparr> sm_loading = False,
             aiData = (case cases d of None \<Rightarrow> None
                       | Some cs \<Rightarrow> if cs = [] then None else Some (last cs)),
             sm_error = [] \<rparr> \<and>
         (cases d = None \<or> cases d = Some [] \<longrightarrow>
            summary_render (Some p) (snd (summary_effect r (Some p) out)) =
              PageView (NoSummary ''No AI summary available.'')) \<and>
         (\<forall>cs sm. cases d = Some cs \<and> cs \<noteq> [] \<and> patient_conditionType p = js ''other'' \<and>
                  ad_summary (last cs) = Some sm \<longrightarrow>
            summary_render (Some p) (snd (summary_effect r (Some p) out)) =
              PageView (Results ''RuralCare AI Results''
                          [OtherBlock (other_lines (last cs)) (summary_sections sm)])))) \<and>
   (patient_conditionType p = js ''wound'' \<or> patient_conditionType p = js ''skin'' \<longrightarrow>
      summary_effect r (Some p) out =
        ([], \<lparr> sm_loading = False, aiData = aiSummary p, sm_error = [] \<rparr>))"
  by (auto simp: summary_effect_def loadAI_def cases_url_def last_case summary_init_def
        summary_render_def results_blocks_def results_title_def js_literals
        split: option.splits)

theorem last_case_shown_for_other_witness:
  "patient_conditionType other_patient \<noteq> js ''wound'' \<and>
   patient_conditionType other_patient \<noteq> js ''skin'' \<and>
   patient_conditionType other_patient = js ''other'' \<and>
   fst (summary_effect (Some (js ''R1'')) (Some other_patient) two_cases) = [js ''/cases/R1''] \<and>
   aiData (snd (summary_effect (Some (js ''R1'')) (Some other_patient) two_cases)) = Some case_b \<and>
   summary_render (Some other_patient)
       (snd (summary_effect (Some (js ''R1'')) (Some other_patient) two_cases)) =
     PageView (Results ''RuralCare AI Results'' [case_b_block]) \<and>
   summary_render (Some other_patient)
       (snd (summary_effect (Some (js ''R1'')) (Some other_patient) no_cases)) =
     PageView (NoSummary ''No AI summary available.'') \<and>
   patient_conditionType skin_patient = js ''skin'' \<and>
   summary_effect (Some (js ''R1'')) (Some skin_patient) two_cases =
     ([], \<lparr> sm_loading = False, aiData = Some skin_summary, sm_error = [] \<rparr>)"
proof -
  let ?r = "Some (js ''R1'')"
  have o: "patient_conditionType other_patient = js ''other''"
    by (simp add: other_patient_def)
  have s: "patient_conditionType skin_patient = js ''skin''"
    and a: "aiSummary skin_patient = Some skin_summary"
    by (simp_all add: skin_patient_def)
  have sm: "ad_summary case_b =
      Some [(js ''home_care'', TextValue (js ''* rest\<newline>* fluids'')),
            (js ''red_flags'', ListValue [js ''chest pain'']),
            (js ''notes'', NullValue)]"
    by (simp add: case_b_def no_fields_def)
  have b: "OtherBlock (other_lines case_b)
             (summary_sections
                [(js ''home_care'', TextValue (js ''* rest\<newline>* fluids'')),
                 (js ''red_flags'', ListValue [js ''chest pain'']),
                 (js ''notes'', NullValue)]) = case_b_block"
    by code_simp
  have u: "js ''/cases/'' @ js ''R1'' = js ''/cases/R1''"
    by (simp add: js_def)
  have e1: "summary_effect ?r (Some other_patient) (Resolved \<lparr> cases = Some [case_a, case_b] \<rparr>) =
      ([js ''/cases/R1''], \<lparr> sm_loading = False, aiData = Some case_b, sm_error = [] \<rparr>)"
    by (simp add: summary_effect_def loadAI_def o js_literals cases_url_def u latest_case_def
          summary_init_def)
  have e2: "summary_effect ?r (Some other_patient) (Resolved \<lparr> cases = Some [] \<rparr>) =
      ([js ''/cases/R1''], \<lparr> sm_loading = False, aiData = None, sm_error = [] \<rparr>)"
    by (simp add: summary_effect_def loadAI_def o js_literals cases_url_def u latest_case_def
          summary_init_def)
  from last_case_shown_for_other[of other_patient ?r two_cases]
    last_case_shown_for_other[of other_patient ?r no_cases]
    last_case_shown_for_other[of skin_patient ?r two_cases]
  show ?thesis
    by (simp add: two_cases_def no_cases_def e1 e2 o s a sm b js_literals)
qed

text \<open>
  C8. With a non-empty \<open>ref\<close> the page sends exactly \<open>GET /patients/{ref}\<close>. When the
  response has photos, the image URL becomes the \<open>url\<close> of the first one and (the URL
  being non-empty) the card shows that image with the analysis component, which gets the
  condition type \<open>wound\<close>, the URL and the \<open>ref\<close>. When the photos array is empty, the page
  alerts \<open>No image found for this patient.\<close> and renders the no-image message, not the
  analysis component. With an empty \<open>ref\<close> nothing is sent and the state stays as it was.
\<close>

theorem fetchPatientImage_first_photo:
  "(page_ref q \<noteq> [] \<longrightarrow>
      filter is_get (fst (page_effect_run q out)) = [Get (''/patients/'' @ page_ref q)] \<and>
      (\<forall>pd p ps. out = HttpOk (Some pd) \<and> photos pd = Some (p # ps) \<longrightarrow>
         page_effect_run q out =
           ([Get (''/patients/'' @ page_ref q)],
            \<lparr> wc_imageUrl = Some (url p), wc_loading = False \<rparr>) \<and>
         (url p \<noteq> [] \<longrightarrow>
            page_render (page_ref q) (snd (page_effect_run q out)) =
              (False,
               ImageAndAnalysis (url p)
                 \<lparr> conditionType = ''wound'', imageUrl = url p, patientRef = page_ref q \<rparr>))) \<and>
      (\<forall>pd. out = HttpOk (Some pd) \<and> photos pd = Some [] \<longrightarrow>
         page_effect_run q out =
           ([Get (''/patients/'' @ page_ref q), PageAlert ''No image found for this patient.''],
            \<lparr> wc_imageUrl = None, wc_loading = False \<rparr>) \<and>
         page_render (page_ref q) (snd (page_effect_run q out)) =
           (False, NoImageMessage ''No image available for this patient.''))) \<and>
   (page_ref q = [] \<longrightarrow>
      page_effect_run q out = ([], \<lparr> wc_imageUrl = None, wc_loading = True \<rparr>))"
  by (auto simp: page_effect_run_def fetchPatientImage_def page_init_def page_render_def
        analysis_card_def split: option.splits http_result.splits list.splits)

theorem fetchPatientImage_first_photo_witness:
  "page_ref (Some ''R1'') \<noteq> [] \<and>
   page_effect_run (Some ''R1'') (HttpOk (Some two_photos)) =
     ([Get ''/patients/R1''], \<lparr> wc_imageUrl = Some ''/img/a.jpg'', wc_loading = False \<rparr>) \<and>
   page_render ''R1'' (snd (page_effect_run (Some ''R1'') (HttpOk (Some two_photos)))) =
     (False,
      ImageAndAnalysis ''/img/a.jpg''
        \<lparr> conditionType = ''wound'', imageUrl = ''/img/a.jpg'', patientRef = ''R1'' \<rparr>) \<and>
   page_effect_run (Some ''R1'') (HttpOk (Some no_photos)) =
     ([Get ''/patients/R1'', PageAlert ''No image found for this patient.''],
      \<lparr> wc_imageUrl = None, wc_loading = False \<rparr>) \<and>
   page_render ''R1'' (snd (page_effect_run (Some ''R1'') (HttpOk (Some no_photos)))) =
     (False, NoImageMessage ''No image available for this patient.'') \<and>
   page_ref None = [] \<and>
   page_effect_run None (HttpOk (Some two_photos)) =
     ([], \<lparr> wc_imageUrl = None, wc_loading = True \<rparr>)"
proof -
  have e1: "page_effect_run (Some ''R1'') (HttpOk (Some two_photos)) =
      ([Get ''/patients/R1''], \<lparr> wc_imageUrl = Some ''/img/a.jpg'', wc_loading = False \<rparr>)"
    by code_simp
  have e2: "page_effect_run (Some ''R1'') (HttpOk (Some no_photos)) =
      ([Get ''/patients/R1'', PageAlert ''No image found for this patient.''],
       \<lparr> wc_imageUrl = None, wc_loading = False \<rparr>)"
    by code_simp
  have p: "photos two_photos = Some [\<lparr> url = ''/img/a.jpg'' \<rparr>, \<lparr> url = ''/img/b.jpg'' \<rparr>]"
    and n: "photos no_photos = Some []"
    by (simp_all add: two_photos_def no_photos_def)
  from fetchPatientImage_first_photo[of "Some ''R1''" "HttpOk (Some two_photos)"]
    fetchPatientImage_first_photo[of "Some ''R1''" "HttpOk (Some no_photos)"]
    fetchPatientImage_first_photo[of None "HttpOk (Some two_photos)"]
  show ?thesis
    by (simp add: page_ref_def e1 e2 p n)
qed

text \<open>
  C10. \<open>toBulletList\<close> is a function of its argument alone. On \<open>null\<close>, \<open>undefined\<close> and the
  empty string it returns the empty list; on every string (every sequence of 16-bit code
  units) it returns the lines of the text (the pieces between the newlines: joined by
  newlines they give the text back, and none contains a newline), each without its
  optional single leading star and the white space right after it, the lines left empty
  or white-space-only by that dropped.
\<close>

theorem toBulletList_lines:
  "toBulletList None = [] \<and> toBulletList (Some []) = [] \<and>
   toBulletList (Some t) = bullet_lines t \<and>
   join_lines (split_lines t) = t \<and>
   list_all (\<lambda>l. 0x000A \<notin> set l) (split_lines t)"
proof -
  have "bullet_lines [] = []"
    by (simp add: bullet_lines_def split_lines_def whitespace_only_def strip_bullet_def)
  then have "toBulletList (Some t) = bullet_lines t"
    by (simp add: toBulletList_def bullet_lines_def trim_empty_iff)
  then show ?thesis
    by (simp add: toBulletList_def split_lines_def join_split_acc split_acc_no_newline)
qed

theorem toBulletList_lines_witness:
  "toBulletList (Some summary_text) = [js ''rest'', js ''* ice '', js ''warm''] \<and>
   bullet_lines summary_text = [js ''rest'', js ''* ice '', js ''warm''] \<and>
   split_lines summary_text =
     [js ''* rest'', [0x3000, 0x2003], js ''** ice '', js ''*'', 0xFEFF # js '' warm''] \<and>
   join_lines (split_lines summary_text) = summary_text"
proof -
  have s: "split_lines summary_text =
      [js ''* rest'', [0x3000, 0x2003], js ''** ice '', js ''*'', 0xFEFF # js '' warm'']"
    by code_simp
  have b: "bullet_lines summary_text = [js ''rest'', js ''* ice '', js ''warm'']"
    by code_simp
  from toBulletList_lines[of summary_text] s b show ?thesis by simp
qed

end
